theory Spec2Isabelle
  imports Main
begin


section \<open>Time values and the Gregorian calendar\<close>

text \<open>
  The engine works on \<open>time.Time\<close> values of the Go standard library. They are modelled
  for the location UTC as the number of nanoseconds since 0001-01-01T00:00:00Z (the zero
  time of Go), an unbounded integer. The calendar accessors follow the algorithms of the
  Go library: the 400/100/4/1-year cycle decomposition for the year and the day of the
  year, and the table of days before each month. Go's \<open>int\<close> is modelled as the unbounded
  \<open>int\<close>: the values the engine computes stay far below \<open>2^63\<close> for every interval
  below \<open>2^59\<close>.
\<close>

type_synonym Time = int

definition nsPerSecond :: int where
  "nsPerSecond = 1000000000"

definition nsPerDay :: int where
  "nsPerDay = 86400000000000"

definition IsZero :: "Time \<Rightarrow> bool" where
  "IsZero t = (t = 0)"

definition Before :: "Time \<Rightarrow> Time \<Rightarrow> bool" where
  "Before t u = (t < u)"

definition After :: "Time \<Rightarrow> Time \<Rightarrow> bool" where
  "After t u = (u < t)"

definition Add :: "Time \<Rightarrow> int \<Rightarrow> Time" where
  "Add t d = t + d"

definition TruncateSecond :: "Time \<Rightarrow> Time" where
  "TruncateSecond t = t - t mod nsPerSecond"

text \<open>The largest \<open>time.Duration\<close>, \<open>1<<63 - 1\<close> nanoseconds.\<close>

definition maxDuration :: int where
  "maxDuration = 9223372036854775807"

definition leapYear :: "int \<Rightarrow> bool" where
  "leapYear y = (y mod 4 = 0 \<and> (y mod 100 \<noteq> 0 \<or> y mod 400 = 0))"

definition daysBefore :: "int list" where
  "daysBefore = [0, 31, 59, 90, 120, 151, 181, 212, 243, 273, 304, 334, 365]"

definition daysSinceEpoch :: "int \<Rightarrow> int" where
  "daysSinceEpoch y = 365 * (y - 1) + (y - 1) div 4 - (y - 1) div 100 + (y - 1) div 400"

text \<open>
  \<open>time.Date\<close>: the month is normalised into the year; the overflow of the other
  components is linear in the result, so that no further normalisation is written out.
\<close>

definition Date :: "int \<Rightarrow> int \<Rightarrow> int \<Rightarrow> int \<Rightarrow> int \<Rightarrow> int \<Rightarrow> int \<Rightarrow> Time" where
  "Date y m d h mi s ns =
     (let m0 = m - 1;
          y1 = y + m0 div 12;
          m1 = m0 mod 12 + 1;
          dd = daysSinceEpoch y1 + daysBefore ! nat (m1 - 1)
               + (if leapYear y1 \<and> 3 \<le> m1 then 1 else 0) + (d - 1)
      in (dd * 86400 + h * 3600 + mi * 60 + s) * nsPerSecond + ns)"

text \<open>The year and the zero-based day of the year of a time.\<close>

definition absDate :: "Time \<Rightarrow> int \<times> int" where
  "absDate t =
     (let d = t div nsPerDay;
          n400 = d div 146097;
          d1 = d mod 146097;
          c = d1 div 36524;
          n100 = c - c div 4;
          d2 = d1 - 36524 * n100;
          n4 = d2 div 1461;
          d3 = d2 mod 1461;
          q = d3 div 365;
          n1 = q - q div 4;
          yday = d3 - 365 * n1
      in (400 * n400 + 100 * n100 + 4 * n4 + n1 + 1, yday))"

definition Year :: "Time \<Rightarrow> int" where
  "Year t = fst (absDate t)"

definition YearDay :: "Time \<Rightarrow> int" where
  "YearDay t = snd (absDate t) + 1"

text \<open>The month and the day of the month, from the year and the day of the year: the leap
  day is set apart, and the month of a day of a common year is estimated as if every month
  had 31 days, which is too low by at most one.\<close>

definition monthDayCommon :: "int \<Rightarrow> int \<times> int" where
  "monthDayCommon d =
     (let m = d div 31;
          e = daysBefore ! nat (m + 1)
      in if e \<le> d then (m + 2, d - e + 1)
         else (m + 1, d - daysBefore ! nat m + 1))"

definition monthDay :: "int \<Rightarrow> int \<Rightarrow> int \<times> int" where
  "monthDay y yday =
     (if leapYear y \<and> yday = 59 then (2, 29)
      else monthDayCommon (if leapYear y \<and> 59 < yday then yday - 1 else yday))"

definition Month :: "Time \<Rightarrow> int" where
  "Month t = fst (monthDay (fst (absDate t)) (snd (absDate t)))"

definition Day :: "Time \<Rightarrow> int" where
  "Day t = snd (monthDay (fst (absDate t)) (snd (absDate t)))"

definition Hour :: "Time \<Rightarrow> int" where
  "Hour t = ((t div nsPerSecond) mod 86400) div 3600"

definition Minute :: "Time \<Rightarrow> int" where
  "Minute t = ((t div nsPerSecond) mod 3600) div 60"

definition Second :: "Time \<Rightarrow> int" where
  "Second t = (t div nsPerSecond) mod 60"

definition Nanosecond :: "Time \<Rightarrow> int" where
  "Nanosecond t = t mod nsPerSecond"

text \<open>\<open>Weekday\<close> counts from Sunday = 0; 0001-01-01 is a Monday.\<close>

definition Weekday :: "Time \<Rightarrow> int" where
  "Weekday t = (t div nsPerDay + 1) mod 7"

definition AddDate :: "Time \<Rightarrow> int \<Rightarrow> int \<Rightarrow> int \<Rightarrow> Time" where
  "AddDate t years months days =
     Date (Year t + years) (Month t + months) (Day t + days)
          (Hour t) (Minute t) (Second t) (Nanosecond t)"

section \<open>Helpers of the package\<close>

text \<open>
  The helper functions of the package (\<open>util.go\<close>) are used by the engine and are described by
  the specification; each of them is modelled from there.
\<close>

text \<open>Modelled from the spec: \<open>pymod\<close>, the remainder with the sign of the divisor
  ("Python-style modular arithmetic"). No call site passes a zero divisor.\<close>

definition pymod :: "int \<Rightarrow> int \<Rightarrow> int" where
  "pymod a b = a mod b"

text \<open>Modelled from the spec: \<open>divmod\<close>, floor division with the sign-matched remainder.\<close>

definition divmod :: "int \<Rightarrow> int \<Rightarrow> int \<times> int" where
  "divmod a b = (a div b, a mod b)"

text \<open>Modelled from the spec: \<open>contains\<close>, membership of a value in a list.\<close>

definition contains :: "int list \<Rightarrow> int \<Rightarrow> bool" where
  "contains xs v = (v \<in> set xs)"

text \<open>Modelled from the spec: \<open>timeContains\<close>, membership of a time in a list of times.\<close>

definition timeContains :: "Time list \<Rightarrow> Time \<Rightarrow> bool" where
  "timeContains xs v = (v \<in> set xs)"

text \<open>Modelled from the spec: \<open>pySubscript\<close>, Python-style list indexing: a negative index
  counts from the end, an index outside the list is an error (the caller skips it).\<close>

definition pySubscript :: "int list \<Rightarrow> int \<Rightarrow> int option" where
  "pySubscript slice index =
     (let i = (if index < 0 then index + int (length slice) else index)
      in if i < 0 \<or> int (length slice) \<le> i then None else Some (slice ! nat i))"

text \<open>Modelled from the spec: \<open>toPyWeekday\<close>, from Go's weekday (Sunday = 0) to the
  weekday index with Monday = 0.\<close>

definition toPyWeekday :: "int \<Rightarrow> int" where
  "toPyWeekday w = (w + 6) mod 7"

text \<open>Modelled from the spec: \<open>isLeap\<close>, 1 for a leap year and 0 otherwise, so that the
  length of a year is \<open>365 + isLeap year\<close>.\<close>

definition isLeap :: "int \<Rightarrow> int" where
  "isLeap y = (if leapYear y then 1 else 0)"

text \<open>Modelled from the spec: \<open>daysIn\<close>, the length of a month of a year.\<close>

definition daysIn :: "int \<Rightarrow> int \<Rightarrow> int" where
  "daysIn m y =
     (if m = 2 then 28 + isLeap y
      else if m = 4 \<or> m = 6 \<or> m = 9 \<or> m = 11 then 30 else 31)"

text \<open>Modelled from the spec: \<open>easter\<close>, the date of Western Easter of a year by the
  anonymous Gregorian Computus.\<close>

definition easter :: "int \<Rightarrow> Time" where
  "easter y =
     (let a = y mod 19; b = y div 100; c = y mod 100;
          d = b div 4; e = b mod 4;
          f = (b + 8) div 25; g = (b - f + 1) div 3;
          h = (19 * a + b - d - g + 15) mod 30;
          i = c div 4; k = c mod 4;
          l = (32 + 2 * e + 2 * i - h - k) mod 7;
          m = (a + 11 * h + 22 * l) div 451;
          mo = (h + l - 7 * m + 114) div 31;
          da = (h + l - 7 * m + 114) mod 31 + 1
      in Date y mo da 0 0 0 0)"

text \<open>Modelled from the spec: \<open>MAXYEAR\<close>, the largest year of the engine.\<close>

definition MAXYEAR :: int where
  "MAXYEAR = 9999"

text \<open>Modelled from the spec: \<open>timeSlice\<close> with \<open>sort.Sort\<close>, sorting times in ascending
  order.\<close>

definition sortTimes :: "Time list \<Rightarrow> Time list" where
  "sortTimes ts = sort ts"

text \<open>Modelled from the spec: \<open>repeat\<close>, \<open>rang\<close> (a half-open range) and \<open>concat\<close>, the
  builders of the calendar tables.\<close>

definition repeat :: "int \<Rightarrow> nat \<Rightarrow> int list" where
  "repeat v k = replicate k v"

definition rang :: "int \<Rightarrow> int \<Rightarrow> int list" where
  "rang a b = [a..b - 1]"

section \<open>Calendar tables\<close>

text \<open>Every mask is 7 days longer to handle cross-year weekly periods.\<close>

definition M366MASK :: "int list" where
  "M366MASK = concat [repeat 1 31, repeat 2 29, repeat 3 31,
     repeat 4 30, repeat 5 31, repeat 6 30, repeat 7 31,
     repeat 8 31, repeat 9 30, repeat 10 31, repeat 11 30,
     repeat 12 31, repeat 1 7]"

definition M365MASK :: "int list" where
  "M365MASK = concat [take 59 M366MASK, drop 60 M366MASK]"

definition MDAY366MASK :: "int list" where
  "MDAY366MASK =
     (let M29 = rang 1 30; M30 = rang 1 31; M31 = rang 1 32
      in concat [M31, M29, M31, M30, M31, M30, M31, M31, M30, M31, M30, M31, take 7 M31])"

definition MDAY365MASK :: "int list" where
  "MDAY365MASK = concat [take 59 MDAY366MASK, drop 60 MDAY366MASK]"

definition NMDAY366MASK :: "int list" where
  "NMDAY366MASK =
     (let M29 = rang (- 29) 0; M30 = rang (- 30) 0; M31 = rang (- 31) 0
      in concat [M31, M29, M31, M30, M31, M30, M31, M31, M30, M31, M30, M31, take 7 M31])"

definition NMDAY365MASK :: "int list" where
  "NMDAY365MASK = concat [take 31 NMDAY366MASK, drop 32 NMDAY366MASK]"

definition WDAYMASK :: "int list" where
  "WDAYMASK = concat (replicate 55 [0, 1, 2, 3, 4, 5, 6])"

definition M366RANGE :: "int list" where
  "M366RANGE = [0, 31, 60, 91, 121, 152, 182, 213, 244, 274, 305, 335, 366]"

definition M365RANGE :: "int list" where
  "M365RANGE = [0, 31, 59, 90, 120, 151, 181, 212, 243, 273, 304, 334, 365]"

section \<open>Rules\<close>

text \<open>\<open>Frequency\<close> is an integer type with seven named constants; the model has the named
  constants only, and \<open>freqOrd\<close> gives their values for the comparisons of the code.\<close>

datatype Frequency = YEARLY | MONTHLY | WEEKLY | DAILY | HOURLY | MINUTELY | SECONDLY

fun freqOrd :: "Frequency \<Rightarrow> int" where
  "freqOrd YEARLY = 0"
| "freqOrd MONTHLY = 1"
| "freqOrd WEEKLY = 2"
| "freqOrd DAILY = 3"
| "freqOrd HOURLY = 4"
| "freqOrd MINUTELY = 5"
| "freqOrd SECONDLY = 6"

text \<open>The struct \<open>Weekday\<close> with its fields \<open>weekday\<close> and \<open>n\<close>.\<close>

record Weekday =
  wd_weekday :: int
  wd_n :: int

record ROption =
  Freq :: Frequency
  Dtstart :: Time
  Interval :: int
  Wkst :: Weekday
  Count :: int
  Until :: Time
  Bysetpos :: "int list"
  Bymonth :: "int list"
  Bymonthday :: "int list"
  Byyearday :: "int list"
  Byweekno :: "int list"
  Byweekday :: "Weekday list"
  Byhour :: "int list"
  Byminute :: "int list"
  Bysecond :: "int list"
  Byeaster :: "int list"
  RFC :: bool

text \<open>The fields of \<open>RRule\<close> carry the prefix \<open>r\<close> where the options have a field of the same
  name.\<close>

record RRule =
  OrigOptions :: ROption
  Options :: ROption
  rFreq :: Frequency
  DateStart :: Time
  rInterval :: int
  rWkst :: int
  rCount :: int
  UntilTime :: Time
  rBysetpos :: "int list"
  rBymonth :: "int list"
  rBymonthday :: "int list"
  Bynmonthday :: "int list"
  rByyearday :: "int list"
  rByweekno :: "int list"
  rByweekday :: "int list"
  Bynweekday :: "Weekday list"
  rByhour :: "int list"
  rByminute :: "int list"
  rBysecond :: "int list"
  rByeaster :: "int list"
  Timeset :: "Time list"
  Len :: int

section \<open>Validation\<close>

text \<open>The errors of \<open>validateBounds\<close>: a value of the named parameter outside its bounds, a
  weekday ordinal outside \<open>-53..53\<close>, a negative interval.\<close>

datatype error = OutOfRange string | InvalidOrdinalWeekday | NonPositiveInterval

definition checkBounds :: "string \<Rightarrow> int \<Rightarrow> int \<Rightarrow> int \<Rightarrow> bool \<Rightarrow> error option" where
  "checkBounds param v lo hi plusMinus =
     (if \<not> (lo \<le> v \<and> v \<le> hi) \<and> (\<not> plusMinus \<or> \<not> (v \<le> - lo \<and> - hi \<le> v))
      then Some (OutOfRange param) else None)"

fun checkField :: "string \<Rightarrow> int \<Rightarrow> int \<Rightarrow> bool \<Rightarrow> int list \<Rightarrow> error option" where
  "checkField param lo hi plusMinus [] = None"
| "checkField param lo hi plusMinus (v # vs) =
     (case checkBounds param v lo hi plusMinus of
        Some e \<Rightarrow> Some e
      | None \<Rightarrow> checkField param lo hi plusMinus vs)"

fun checkAll :: "(int list \<times> string \<times> int \<times> int \<times> bool) list \<Rightarrow> error option" where
  "checkAll [] = None"
| "checkAll ((field, param, lo, hi, plusMinus) # bs) =
     (case checkField param lo hi plusMinus field of
        Some e \<Rightarrow> Some e
      | None \<Rightarrow> checkAll bs)"

fun checkWeekdays :: "Weekday list \<Rightarrow> error option" where
  "checkWeekdays [] = None"
| "checkWeekdays (w # ws) =
     (if 53 < wd_n w \<or> wd_n w < - 53 then Some InvalidOrdinalWeekday else checkWeekdays ws)"

definition validateBounds :: "ROption \<Rightarrow> error option" where
  "validateBounds arg =
     (case checkAll
        [(Bysecond arg, ''Bysecond'', 0, 59, False),
         (Byminute arg, ''Byminute'', 0, 59, False),
         (Byhour arg, ''Byhour'', 0, 23, False),
         (Bymonthday arg, ''Bymonthday'', 1, 31, True),
         (Byyearday arg, ''Byyearday'', 1, 366, True),
         (Byweekno arg, ''Byweekno'', 1, 53, True),
         (Bymonth arg, ''Bymonth'', 1, 12, False),
         (Bysetpos arg, ''Bysetpos'', 1, 366, True)] of
        Some e \<Rightarrow> Some e
      | None \<Rightarrow>
         (case checkWeekdays (Byweekday arg) of
            Some e \<Rightarrow> Some e
          | None \<Rightarrow> if Interval arg < 0 then Some NonPositiveInterval else None))"

section \<open>Construction\<close>

text \<open>\<open>calculateTimeset\<close>: the sorted product of the hours, minutes and seconds for the
  frequencies coarser than HOURLY, and the empty list otherwise.\<close>

definition timesOf :: "int list \<Rightarrow> int list \<Rightarrow> int list \<Rightarrow> Time list" where
  "timesOf hs ms ss =
     concat (map (\<lambda>h. concat (map (\<lambda>mi. map (\<lambda>s. Date 1 1 1 h mi s 0) ss) ms)) hs)"

definition calculateTimeset :: "RRule \<Rightarrow> RRule" where
  "calculateTimeset r =
     r\<lparr>Timeset := (if freqOrd (rFreq r) < freqOrd HOURLY
                    then sortTimes (timesOf (rByhour r) (rByminute r) (rBysecond r))
                    else [])\<rparr>"

text \<open>The synthetic defaults that \<open>NewRRule\<close> inserts into the options when no BYWEEKNO,
  BYYEARDAY, BYMONTHDAY, BYDAY or BYEASTER is given.\<close>

definition defaultsFromStart :: "Frequency \<Rightarrow> Time \<Rightarrow> ROption \<Rightarrow> ROption" where
  "defaultsFromStart freq start arg =
     (if Byweekno arg = [] \<and> Byyearday arg = [] \<and> Bymonthday arg = []
         \<and> Byweekday arg = [] \<and> Byeaster arg = []
      then
        if freq = YEARLY then
          (if Bymonth arg = [] then arg\<lparr>Bymonth := [Month start]\<rparr> else arg)
            \<lparr>Bymonthday := [Day start]\<rparr>
        else if freq = MONTHLY then arg\<lparr>Bymonthday := [Day start]\<rparr>
        else if freq = WEEKLY then
          arg\<lparr>Byweekday := [\<lparr>wd_weekday = toPyWeekday (Weekday start), wd_n = 0\<rparr>]\<rparr>
        else arg
      else arg)"

text \<open>The start of a rule: the \<open>Dtstart\<close> of the options, or the current time when it is
  the zero time, truncated to whole seconds. The current time is the parameter \<open>now\<close>.\<close>

definition startOf :: "Time \<Rightarrow> ROption \<Rightarrow> Time" where
  "startOf now arg = TruncateSecond (if IsZero (Dtstart arg) then now else Dtstart arg)"

text \<open>The options as \<open>NewRRule\<close> rewrites them on its way: the start, the until bound (a
  zero \<open>Until\<close> becomes the start plus the largest duration, approximately 290 years), and
  the synthetic defaults.\<close>

definition normalize :: "Time \<Rightarrow> ROption \<Rightarrow> ROption" where
  "normalize now arg =
     defaultsFromStart (Freq arg) (startOf now arg)
       (arg\<lparr>Dtstart := startOf now arg,
            Until := (if IsZero (Until arg) then Add (startOf now arg) maxDuration
                      else Until arg)\<rparr>)"

text \<open>The rule that \<open>NewRRule\<close> builds from valid options. The loops that split BYMONTHDAY
  by sign and BYDAY by position append in order, which is a filter of the list.\<close>

definition buildRule :: "Time \<Rightarrow> ROption \<Rightarrow> RRule" where
  "buildRule now arg =
     (let start = startOf now arg;
          freq = Freq arg;
          opts = normalize now arg
      in calculateTimeset
           \<lparr>OrigOptions = arg,
            Options = opts,
            rFreq = freq,
            DateStart = start,
            rInterval = (if Interval arg = 0 then 1 else Interval arg),
            rWkst = wd_weekday (Wkst arg),
            rCount = Count arg,
            UntilTime = Until opts,
            rBysetpos = Bysetpos arg,
            rBymonth = Bymonth opts,
            rBymonthday = filter (\<lambda>mday. 0 < mday) (Bymonthday opts),
            Bynmonthday = filter (\<lambda>mday. mday < 0) (Bymonthday opts),
            rByyearday = Byyearday opts,
            rByweekno = Byweekno opts,
            rByweekday = map wd_weekday
              (filter (\<lambda>w. wd_n w = 0 \<or> freqOrd MONTHLY < freqOrd freq) (Byweekday opts)),
            Bynweekday =
              filter (\<lambda>w. \<not> (wd_n w = 0 \<or> freqOrd MONTHLY < freqOrd freq)) (Byweekday opts),
            rByhour = (if Byhour opts = []
                       then (if freqOrd freq < freqOrd HOURLY then [Hour start] else [])
                       else Byhour opts),
            rByminute = (if Byminute opts = []
                         then (if freqOrd freq < freqOrd MINUTELY then [Minute start] else [])
                         else Byminute opts),
            rBysecond = (if Bysecond opts = []
                         then (if freqOrd freq < freqOrd SECONDLY then [Second start] else [])
                         else Bysecond opts),
            rByeaster = Byeaster opts,
            Timeset = [],
            Len = 0\<rparr>)"

text \<open>\<open>NewRRule\<close>: the validation, then the construction.\<close>

definition NewRRule :: "Time \<Rightarrow> ROption \<Rightarrow> error + RRule" where
  "NewRRule now arg =
     (case validateBounds arg of
        Some e \<Rightarrow> Inl e
      | None \<Rightarrow> Inr (buildRule now arg))"

section \<open>Year and period information\<close>

text \<open>
  A run-time panic of the Go program is a value of the model: an index outside a slice, the
  dereference of a nil pointer, an integer division by zero. Every read and write of a
  slice goes through \<open>index\<close> and \<open>assign\<close>, which check the bounds as Go does.
\<close>

datatype panic = IndexOutOfRange | NilDereference | DivideByZero

definition index :: "'a list \<Rightarrow> int \<Rightarrow> panic + 'a" where
  "index xs i =
     (if 0 \<le> i \<and> i < int (length xs) then Inr (xs ! nat i) else Inl IndexOutOfRange)"

definition assign :: "'a list \<Rightarrow> int \<Rightarrow> 'a \<Rightarrow> panic + 'a list" where
  "assign xs i v =
     (if 0 \<le> i \<and> i < int (length xs) then Inr (xs[nat i := v]) else Inl IndexOutOfRange)"

text \<open>Go's integer division truncates toward zero and panics on a zero divisor.\<close>

definition quo :: "int \<Rightarrow> int \<Rightarrow> panic + int" where
  "quo a b = (if b = 0 then Inl DivideByZero else Inr (sgn a * sgn b * (\<bar>a\<bar> div \<bar>b\<bar>)))"

text \<open>The struct \<open>iterInfo\<close>. Its field \<open>rrule\<close> is a pointer to the rule; the model passes
  the rule next to the record. A nil slice is the empty list.\<close>

record iterInfo =
  lastyear :: int
  lastmonth :: int
  yearlen :: int
  nextyearlen :: int
  firstyday :: Time
  yearweekday :: int
  mmask :: "int list"
  mrange :: "int list"
  mdaymask :: "int list"
  nmdaymask :: "int list"
  wdaymask :: "int list"
  wnomask :: "int list"
  nwdaymask :: "int list"
  eastermask :: "int list"

text \<open>The loop that marks the days of one week: at most seven days from \<open>i\<close>, stopping
  before the next day that is a week start.\<close>

fun markWeek :: "nat \<Rightarrow> int list \<Rightarrow> int \<Rightarrow> int \<Rightarrow> int list \<Rightarrow> panic + int list" where
  "markWeek 0 wdm wkst i wno = Inr wno"
| "markWeek (Suc j) wdm wkst i wno =
     (case assign wno i 1 of
        Inl e \<Rightarrow> Inl e
      | Inr wno1 \<Rightarrow>
         (case index wdm (i + 1) of
            Inl e \<Rightarrow> Inl e
          | Inr w \<Rightarrow> if w = wkst then Inr wno1 else markWeek j wdm wkst (i + 1) wno1))"

text \<open>The loop over the requested week numbers.\<close>

fun markWeekNos ::
  "int list \<Rightarrow> int \<Rightarrow> int \<Rightarrow> int \<Rightarrow> int \<Rightarrow> int list \<Rightarrow> int list \<Rightarrow> panic + int list" where
  "markWeekNos wdm wkst numweeks no1wkst firstwkst [] wno = Inr wno"
| "markWeekNos wdm wkst numweeks no1wkst firstwkst (n0 # ns) wno =
     (let n = (if n0 < 0 then n0 + (numweeks + 1) else n0)
      in if \<not> (0 < n \<and> n \<le> numweeks)
         then markWeekNos wdm wkst numweeks no1wkst firstwkst ns wno
         else
           let i = (if 1 < n
                    then (if no1wkst \<noteq> firstwkst
                          then no1wkst + (n - 1) * 7 - (7 - firstwkst)
                          else no1wkst + (n - 1) * 7)
                    else no1wkst)
           in case markWeek 7 wdm wkst i wno of
                Inl e \<Rightarrow> Inl e
              | Inr wno1 \<Rightarrow> markWeekNos wdm wkst numweeks no1wkst firstwkst ns wno1)"

text \<open>The loop \<open>for i := 0; i < no1wkst; i++\<close> that marks the leading days of the year.\<close>

fun markLeading :: "nat \<Rightarrow> int \<Rightarrow> int list \<Rightarrow> panic + int list" where
  "markLeading 0 i wno = Inr wno"
| "markLeading (Suc j) i wno =
     (case assign wno i 1 of
        Inl e \<Rightarrow> Inl e
      | Inr wno1 \<Rightarrow> markLeading j (i + 1) wno1)"

text \<open>The week-number mask of \<open>rebuild\<close>, built when BYWEEKNO is not empty.\<close>

definition weekNoMask :: "RRule \<Rightarrow> iterInfo \<Rightarrow> int \<Rightarrow> panic + int list" where
  "weekNoMask r info y =
     (let wno0 = replicate (nat (yearlen info + 7)) 0;
          firstwkst = pymod (7 - yearweekday info + rWkst r) 7;
          no1wkst = (if 4 \<le> firstwkst then 0 else firstwkst);
          wyearlen = (if 4 \<le> firstwkst
                      then yearlen info + pymod (yearweekday info - rWkst r) 7
                      else yearlen info - no1wkst);
          numweeks = fst (divmod wyearlen 7) + snd (divmod wyearlen 7) div 4
      in case markWeekNos (wdaymask info) (rWkst r) numweeks no1wkst firstwkst
                (rByweekno r) wno0 of
           Inl e \<Rightarrow> Inl e
         | Inr wno1 \<Rightarrow>
            (case (if contains (rByweekno r) 1
                   then
                     let i = (if no1wkst \<noteq> firstwkst
                              then no1wkst + numweeks * 7 - (7 - firstwkst)
                              else no1wkst + numweeks * 7)
                     in if i < yearlen info
                        then markWeek 7 (wdaymask info) (rWkst r) i wno1
                        else Inr wno1
                   else Inr wno1) of
               Inl e \<Rightarrow> Inl e
             | Inr wno2 \<Rightarrow>
                if no1wkst \<noteq> 0
                then
                  let lnumweeks =
                       (if \<not> contains (rByweekno r) (- 1)
                        then
                          let lyearweekday = toPyWeekday (Weekday (Date (y - 1) 1 1 0 0 0 0));
                              lno1wkst = pymod (7 - lyearweekday + rWkst r) 7;
                              lyearlen = 365 + isLeap (y - 1)
                          in if 4 \<le> lno1wkst
                             then 52 + pymod (lyearlen + pymod (lyearweekday - rWkst r) 7) 7 div 4
                             else 52 + pymod (yearlen info - no1wkst) 7 div 4
                        else - 1)
                  in if contains (rByweekno r) lnumweeks
                     then markLeading (nat no1wkst) 0 wno2
                     else Inr wno2
                else Inr wno2))"

text \<open>The part of \<open>rebuild\<close> that runs when the year differs from the cached one.\<close>

definition rebuildYear :: "RRule \<Rightarrow> iterInfo \<Rightarrow> int \<Rightarrow> panic + iterInfo" where
  "rebuildYear r info y =
     (let yl = 365 + isLeap y;
          ywd = toPyWeekday (Weekday (Date y 1 1 0 0 0 0));
          info1 = info\<lparr>yearlen := yl,
                       nextyearlen := 365 + isLeap (y + 1),
                       firstyday := Date y 1 1 0 0 0 0,
                       yearweekday := ywd,
                       wdaymask := drop (nat ywd) WDAYMASK\<rparr>;
          info2 = (if yl = 365
                   then info1\<lparr>mmask := M365MASK, mdaymask := MDAY365MASK,
                              nmdaymask := NMDAY365MASK, mrange := M365RANGE\<rparr>
                   else info1\<lparr>mmask := M366MASK, mdaymask := MDAY366MASK,
                              nmdaymask := NMDAY366MASK, mrange := M366RANGE\<rparr>)
      in if rByweekno r = [] then Inr (info2\<lparr>wnomask := []\<rparr>)
         else
           (case weekNoMask r info2 y of
              Inl e \<Rightarrow> Inl e
            | Inr wno \<Rightarrow> Inr (info2\<lparr>wnomask := wno\<rparr>)))"

text \<open>The slice \<open>mrange[month-1 : month+1]\<close>, as the pair of its two elements.\<close>

definition monthRange :: "int list \<Rightarrow> int \<Rightarrow> panic + int \<times> int" where
  "monthRange mr m =
     (if 0 \<le> m - 1 \<and> m + 1 \<le> int (length mr)
      then Inr (mr ! nat (m - 1), mr ! nat m) else Inl IndexOutOfRange)"

fun monthRanges :: "int list \<Rightarrow> int list \<Rightarrow> panic + (int \<times> int) list" where
  "monthRanges mr [] = Inr []"
| "monthRanges mr (m # ms) =
     (case monthRange mr m of
        Inl e \<Rightarrow> Inl e
      | Inr x \<Rightarrow>
         (case monthRanges mr ms of
            Inl e \<Rightarrow> Inl e
          | Inr xs \<Rightarrow> Inr (x # xs)))"

text \<open>The positioned weekdays of one range from \<open>fst0\<close> to \<open>lst\<close> (\<open>first\<close> and \<open>last\<close> in the code).\<close>

fun markNth :: "int list \<Rightarrow> int \<Rightarrow> int \<Rightarrow> Weekday list \<Rightarrow> int list \<Rightarrow> panic + int list" where
  "markNth wdm fst0 lst [] nwd = Inr nwd"
| "markNth wdm fst0 lst (w # ws) nwd =
     (case (if wd_n w < 0
            then
              (case index wdm (lst + (wd_n w + 1) * 7) of
                 Inl e \<Rightarrow> Inl e
               | Inr v \<Rightarrow> Inr (lst + (wd_n w + 1) * 7 - pymod (v - wd_weekday w) 7))
            else
              (case index wdm (fst0 + (wd_n w - 1) * 7) of
                 Inl e \<Rightarrow> Inl e
               | Inr v \<Rightarrow> Inr (fst0 + (wd_n w - 1) * 7 + pymod (7 - v + wd_weekday w) 7))) of
        Inl e \<Rightarrow> Inl e
      | Inr i \<Rightarrow>
         if fst0 \<le> i \<and> i \<le> lst
         then (case assign nwd i 1 of
                 Inl e \<Rightarrow> Inl e
               | Inr nwd1 \<Rightarrow> markNth wdm fst0 lst ws nwd1)
         else markNth wdm fst0 lst ws nwd)"

fun markRanges :: "int list \<Rightarrow> Weekday list \<Rightarrow> (int \<times> int) list \<Rightarrow> int list \<Rightarrow> panic + int list" where
  "markRanges wdm ws [] nwd = Inr nwd"
| "markRanges wdm ws ((fst0, lst) # xs) nwd =
     (case markNth wdm fst0 (lst - 1) ws nwd of
        Inl e \<Rightarrow> Inl e
      | Inr nwd1 \<Rightarrow> markRanges wdm ws xs nwd1)"

text \<open>The part of \<open>rebuild\<close> for the positioned weekdays; \<open>changed\<close> is the test
  \<open>month != info.lastmonth || year != info.lastyear\<close> on the cache before the call.\<close>

definition rebuildNth :: "RRule \<Rightarrow> iterInfo \<Rightarrow> bool \<Rightarrow> int \<Rightarrow> panic + iterInfo" where
  "rebuildNth r info changed m =
     (if Bynweekday r \<noteq> [] \<and> changed
      then
        (case (if rFreq r = YEARLY
               then (if rBymonth r \<noteq> [] then monthRanges (mrange info) (rBymonth r)
                     else Inr [(0, yearlen info)])
               else if rFreq r = MONTHLY
               then (case monthRange (mrange info) m of
                       Inl e \<Rightarrow> Inl e
                     | Inr x \<Rightarrow> Inr [x])
               else Inr []) of
           Inl e \<Rightarrow> Inl e
         | Inr ranges \<Rightarrow>
            if ranges \<noteq> []
            then (case markRanges (wdaymask info) (Bynweekday r) ranges
                         (replicate (nat (yearlen info)) 0) of
                    Inl e \<Rightarrow> Inl e
                  | Inr nwd \<Rightarrow> Inr (info\<lparr>nwdaymask := nwd\<rparr>))
            else Inr info)
      else Inr info)"

text \<open>The part of \<open>rebuild\<close> for BYEASTER.\<close>

fun markEaster :: "int \<Rightarrow> int list \<Rightarrow> int list \<Rightarrow> panic + int list" where
  "markEaster eyday [] em = Inr em"
| "markEaster eyday (offset # os) em =
     (case assign em (eyday + offset) 1 of
        Inl e \<Rightarrow> Inl e
      | Inr em1 \<Rightarrow> markEaster eyday os em1)"

definition rebuildEaster :: "RRule \<Rightarrow> iterInfo \<Rightarrow> int \<Rightarrow> panic + iterInfo" where
  "rebuildEaster r info y =
     (if rByeaster r \<noteq> []
      then (case markEaster (YearDay (easter y) - 1) (rByeaster r)
                   (replicate (nat (yearlen info + 7)) 0) of
              Inl e \<Rightarrow> Inl e
            | Inr em \<Rightarrow> Inr (info\<lparr>eastermask := em\<rparr>))
      else Inr info)"

definition rebuild :: "RRule \<Rightarrow> iterInfo \<Rightarrow> int \<Rightarrow> int \<Rightarrow> panic + iterInfo" where
  "rebuild r info y m =
     (case (if y \<noteq> lastyear info then rebuildYear r info y else Inr info) of
        Inl e \<Rightarrow> Inl e
      | Inr info1 \<Rightarrow>
         (case rebuildNth r info1 (m \<noteq> lastmonth info \<or> y \<noteq> lastyear info) m of
            Inl e \<Rightarrow> Inl e
          | Inr info2 \<Rightarrow>
             (case rebuildEaster r info2 y of
                Inl e \<Rightarrow> Inl e
              | Inr info3 \<Rightarrow> Inr (info3\<lparr>lastyear := y, lastmonth := m\<rparr>))))"

section \<open>Day set and time set\<close>

text \<open>The day set is a slice of pointers: \<open>None\<close> is nil, \<open>Some i\<close> points to the ordinal
  \<open>i\<close>.\<close>

fun fillDays :: "nat \<Rightarrow> int \<Rightarrow> int option list \<Rightarrow> panic + int option list" where
  "fillDays 0 i ds = Inr ds"
| "fillDays (Suc j) i ds =
     (case assign ds i (Some i) of
        Inl e \<Rightarrow> Inl e
      | Inr ds1 \<Rightarrow> fillDays j (i + 1) ds1)"

text \<open>The loop of the WEEKLY case; it returns the day set and the end of the window.\<close>

fun fillWeek ::
  "nat \<Rightarrow> int list \<Rightarrow> int \<Rightarrow> int \<Rightarrow> int option list \<Rightarrow> panic + int option list \<times> int" where
  "fillWeek 0 wdm wkst i ds = Inr (ds, i)"
| "fillWeek (Suc j) wdm wkst i ds =
     (case assign ds i (Some i) of
        Inl e \<Rightarrow> Inl e
      | Inr ds1 \<Rightarrow>
         (case index wdm (i + 1) of
            Inl e \<Rightarrow> Inl e
          | Inr w \<Rightarrow> if w = wkst then Inr (ds1, i + 1) else fillWeek j wdm wkst (i + 1) ds1))"

definition getdayset ::
  "RRule \<Rightarrow> iterInfo \<Rightarrow> Frequency \<Rightarrow> int \<Rightarrow> int \<Rightarrow> int \<Rightarrow> panic + int option list \<times> int \<times> int" where
  "getdayset r info freq y m d =
     (if freq = YEARLY
      then Inr (map Some [0..yearlen info - 1], 0, yearlen info)
      else if freq = MONTHLY
      then
        (case index (mrange info) (m - 1) of
           Inl e \<Rightarrow> Inl e
         | Inr start \<Rightarrow>
            (case index (mrange info) m of
               Inl e \<Rightarrow> Inl e
             | Inr stop \<Rightarrow>
                (case fillDays (nat (stop - start)) start
                        (replicate (nat (yearlen info)) None) of
                   Inl e \<Rightarrow> Inl e
                 | Inr ds \<Rightarrow> Inr (ds, start, stop))))
      else if freq = WEEKLY
      then
        (let i = YearDay (Date y m d 0 0 0 0) - 1
         in case fillWeek 7 (wdaymask info) (rWkst r) i
                   (replicate (nat (yearlen info + 7)) None) of
              Inl e \<Rightarrow> Inl e
            | Inr (ds, stop) \<Rightarrow> Inr (ds, i, stop))
      else
        (let i = YearDay (Date y m d 0 0 0 0) - 1
         in case assign (replicate (nat (yearlen info)) None) i (Some i) of
              Inl e \<Rightarrow> Inl e
            | Inr ds \<Rightarrow> Inr (ds, i, i + 1)))"

definition gettimeset :: "RRule \<Rightarrow> Frequency \<Rightarrow> int \<Rightarrow> int \<Rightarrow> int \<Rightarrow> Time list" where
  "gettimeset r freq h mi s =
     (if freq = HOURLY then sortTimes (timesOf [h] (rByminute r) (rBysecond r))
      else if freq = MINUTELY then sortTimes (timesOf [h] [mi] (rBysecond r))
      else if freq = SECONDLY then [Date 1 1 1 h mi s 0]
      else [])"

section \<open>The iterator\<close>

record rIterator =
  year :: int
  month :: int
  day :: int
  hour :: int
  minute :: int
  second :: int
  weekday :: int
  ii :: iterInfo
  timeset :: "Time list"
  total :: int
  count :: int
  remain :: "Time list"
  finished :: bool

subsection \<open>Filtering the day set\<close>

text \<open>The conjunctions and disjunctions of the filter evaluate their right operand only
  when the left one does not decide, so a mask is read only when its filter is active.\<close>

definition orElse :: "panic + bool \<Rightarrow> panic + bool \<Rightarrow> panic + bool" where
  "orElse a b = (case a of Inl e \<Rightarrow> Inl e | Inr x \<Rightarrow> if x then Inr True else b)"

definition andAlso :: "panic + bool \<Rightarrow> panic + bool \<Rightarrow> panic + bool" where
  "andAlso a b = (case a of Inl e \<Rightarrow> Inl e | Inr x \<Rightarrow> if x then b else Inr False)"

definition notContainsAt :: "int list \<Rightarrow> int list \<Rightarrow> int \<Rightarrow> panic + bool" where
  "notContainsAt xs msk i =
     (case index msk i of Inl e \<Rightarrow> Inl e | Inr v \<Rightarrow> Inr (\<not> contains xs v))"

definition zeroAt :: "int list \<Rightarrow> int \<Rightarrow> panic + bool" where
  "zeroAt msk i = (case index msk i of Inl e \<Rightarrow> Inl e | Inr v \<Rightarrow> Inr (v = 0))"

text \<open>The condition under which \<open>generate\<close> removes the ordinal \<open>i\<close> from the day set.\<close>

definition rejected :: "RRule \<Rightarrow> iterInfo \<Rightarrow> int \<Rightarrow> panic + bool" where
  "rejected r info i =
     orElse (andAlso (Inr (rBymonth r \<noteq> [])) (notContainsAt (rBymonth r) (mmask info) i))
    (orElse (andAlso (Inr (rByweekno r \<noteq> [])) (zeroAt (wnomask info) i))
    (orElse (andAlso (Inr (rByweekday r \<noteq> [])) (notContainsAt (rByweekday r) (wdaymask info) i))
    (orElse (andAlso (Inr (nwdaymask info \<noteq> [])) (zeroAt (nwdaymask info) i))
    (orElse (andAlso (Inr (rByeaster r \<noteq> [])) (zeroAt (eastermask info) i))
    (orElse (andAlso (Inr (rBymonthday r \<noteq> [] \<or> Bynmonthday r \<noteq> []))
               (andAlso (notContainsAt (rBymonthday r) (mdaymask info) i)
                        (notContainsAt (Bynmonthday r) (nmdaymask info) i)))
            (Inr (rByyearday r \<noteq> [] \<and>
                  (i < yearlen info
                     \<and> \<not> contains (rByyearday r) (i + 1)
                     \<and> \<not> contains (rByyearday r) (- yearlen info + i)
                   \<or> yearlen info \<le> i
                     \<and> \<not> contains (rByyearday r) (i + 1 - yearlen info)
                     \<and> \<not> contains (rByyearday r)
                           (- nextyearlen info + i - yearlen info)))))))))"

text \<open>The first loop of \<open>generate\<close> over \<open>dayset[start:end]\<close>: the element at position \<open>k\<close>
  is read and dereferenced, and the cell of a rejected ordinal is set to nil.\<close>

fun filterDays ::
  "RRule \<Rightarrow> iterInfo \<Rightarrow> nat \<Rightarrow> int \<Rightarrow> int option list \<times> bool
     \<Rightarrow> panic + int option list \<times> bool" where
  "filterDays r info 0 k acc = Inr acc"
| "filterDays r info (Suc j) k (ds, filtered) =
     (case index ds k of
        Inl e \<Rightarrow> Inl e
      | Inr None \<Rightarrow> Inl NilDereference
      | Inr (Some i) \<Rightarrow>
         (case rejected r info i of
            Inl e \<Rightarrow> Inl e
          | Inr rej \<Rightarrow>
             if rej
             then (case assign ds i None of
                     Inl e \<Rightarrow> Inl e
                   | Inr ds1 \<Rightarrow> filterDays r info j (k + 1) (ds1, True))
             else filterDays r info j (k + 1) (ds, filtered)))"

subsection \<open>Candidates of a period\<close>

text \<open>The ordinals of \<open>dayset[start:end]\<close> that are not nil, in order.\<close>

definition surviving :: "int option list \<Rightarrow> int \<Rightarrow> int \<Rightarrow> int list" where
  "surviving ds start stop =
     List.map_filter (\<lambda>x. x) (take (nat (stop - start)) (drop (nat start) ds))"

text \<open>The date of a day joined with a time of the time set.\<close>

definition combine :: "Time \<Rightarrow> Time \<Rightarrow> Time" where
  "combine date timeTemp =
     Date (Year date) (Month date) (Day date)
          (Hour timeTemp) (Minute timeTemp) (Second timeTemp) (Nanosecond timeTemp)"

text \<open>The loop over BYSETPOS that builds \<open>poslist\<close>.\<close>

fun setposList ::
  "iterInfo \<Rightarrow> Time list \<Rightarrow> int list \<Rightarrow> int list \<Rightarrow> Time list \<Rightarrow> panic + Time list" where
  "setposList info ts temp [] poslist = Inr poslist"
| "setposList info ts temp (pos # rest) poslist =
     (let dt = (if pos < 0 then divmod pos (int (length ts))
                else divmod (pos - 1) (int (length ts)))
      in case pySubscript temp (fst dt) of
           None \<Rightarrow> setposList info ts temp rest poslist
         | Some i \<Rightarrow>
            (case index ts (snd dt) of
               Inl e \<Rightarrow> Inl e
             | Inr timeTemp \<Rightarrow>
                let res = combine (AddDate (firstyday info) 0 0 i) timeTemp
                in if \<not> timeContains poslist res
                   then setposList info ts temp rest (poslist @ [res])
                   else setposList info ts temp rest poslist))"

text \<open>Without BYSETPOS: every surviving day with every time of the time set, in the order
  of the two nested loops.\<close>

definition candidates :: "iterInfo \<Rightarrow> Time list \<Rightarrow> int list \<Rightarrow> Time list" where
  "candidates info ts days =
     concat (map (\<lambda>i. map (combine (AddDate (firstyday info) 0 0 i)) ts) days)"

subsection \<open>Emission\<close>

text \<open>The rule is reached through the pointer \<open>r\<close>: finishing writes the number of
  occurrences into its field \<open>Len\<close>.\<close>

definition finish :: "RRule \<Rightarrow> rIterator \<Rightarrow> RRule \<times> rIterator" where
  "finish r it = (r\<lparr>Len := total it\<rparr>, it\<lparr>finished := True\<rparr>)"

text \<open>The emission loop over the candidates in order; the first component of the result
  tells whether \<open>generate\<close> has returned.\<close>

fun emit :: "Time list \<Rightarrow> RRule \<Rightarrow> rIterator \<Rightarrow> bool \<times> RRule \<times> rIterator" where
  "emit [] r it = (False, r, it)"
| "emit (res # rest) r it =
     (if \<not> IsZero (UntilTime r) \<and> After res (UntilTime r) then (True, finish r it)
      else if \<not> Before res (DateStart r)
      then
        (let it1 = it\<lparr>total := total it + 1, remain := remain it @ [res]\<rparr>
         in if count it1 \<noteq> 0
            then (let it2 = it1\<lparr>count := count it1 - 1\<rparr>
                  in if count it2 = 0 then (True, finish r it2) else emit rest r it2)
            else emit rest r it1)
      else emit rest r it)"

subsection \<open>The frequency stepper\<close>

text \<open>The loop of the day fix-up; the first component tells whether the year has passed
  \<open>MAXYEAR\<close>, on which \<open>generate\<close> returns.\<close>

function fixDayLoop :: "int \<Rightarrow> int \<Rightarrow> int \<Rightarrow> bool \<times> int \<times> int \<times> int" where
  "fixDayLoop y m d =
     (if daysIn m y < d
      then (if m + 1 = 13
            then (if MAXYEAR < y + 1 then (True, y + 1, 1, d - daysIn m y)
                  else fixDayLoop (y + 1) 1 (d - daysIn m y))
            else fixDayLoop y (m + 1) (d - daysIn m y))
      else (False, y, m, d))"
  by pat_completeness auto
termination
proof (relation "measure (\<lambda>(y, m, d). nat d)")
  show "wf (measure (\<lambda>(y, m, d). nat d))" by simp
next
  fix y m d :: int
  assume "daysIn m y < d"
  moreover have "28 \<le> daysIn m y" by (simp add: daysIn_def isLeap_def)
  ultimately show "((y + 1, 1, d - daysIn m y), (y, m, d)) \<in> measure (\<lambda>(y, m, d). nat d)"
    by simp
next
  fix y m d :: int
  assume "daysIn m y < d"
  moreover have "28 \<le> daysIn m y" by (simp add: daysIn_def isLeap_def)
  ultimately show "((y, m + 1, d - daysIn m y), (y, m, d)) \<in> measure (\<lambda>(y, m, d). nat d)"
    by simp
qed

definition fixDay :: "RRule \<Rightarrow> rIterator \<Rightarrow> panic + bool \<times> RRule \<times> rIterator" where
  "fixDay r it =
     (if 28 < day it \<and> daysIn (month it) (year it) < day it
      then
        (case fixDayLoop (year it) (month it) (day it) of
           (over, y, m, d) \<Rightarrow>
             let it1 = it\<lparr>year := y, month := m, day := d\<rparr>
             in if over then Inr (True, finish r it1)
                else (case rebuild r (ii it1) y m of
                        Inl e \<Rightarrow> Inl e
                      | Inr info \<Rightarrow> Inr (False, r, it1\<lparr>ii := info\<rparr>)))
      else Inr (False, r, it))"

definition stepYearly :: "RRule \<Rightarrow> rIterator \<Rightarrow> panic + bool \<times> RRule \<times> rIterator" where
  "stepYearly r it =
     (let it1 = it\<lparr>year := year it + rInterval r\<rparr>
      in if MAXYEAR < year it1 then Inr (True, finish r it1)
         else (case rebuild r (ii it1) (year it1) (month it1) of
                 Inl e \<Rightarrow> Inl e
               | Inr info \<Rightarrow> Inr (False, r, it1\<lparr>ii := info\<rparr>)))"

definition stepMonthly :: "RRule \<Rightarrow> rIterator \<Rightarrow> panic + bool \<times> RRule \<times> rIterator" where
  "stepMonthly r it =
     (let it1 = it\<lparr>month := month it + rInterval r\<rparr>;
          it2 = (if 12 < month it1
                 then
                   (let dm = divmod (month it1) 12;
                        it3 = it1\<lparr>month := snd dm, year := year it1 + fst dm\<rparr>
                    in if month it3 = 0 then it3\<lparr>month := 12, year := year it3 - 1\<rparr>
                       else it3)
                 else it1)
      in if 12 < month it1 \<and> MAXYEAR < year it2 then Inr (True, finish r it2)
         else (case rebuild r (ii it2) (year it2) (month it2) of
                 Inl e \<Rightarrow> Inl e
               | Inr info \<Rightarrow> Inr (False, r, it2\<lparr>ii := info\<rparr>)))"

definition stepWeekly :: "RRule \<Rightarrow> rIterator \<Rightarrow> rIterator" where
  "stepWeekly r it =
     (if weekday it < rWkst r
      then it\<lparr>day := day it + (- (weekday it + 1 + (6 - rWkst r)) + rInterval r * 7),
              weekday := rWkst r\<rparr>
      else it\<lparr>day := day it + (- (weekday it - rWkst r) + rInterval r * 7),
              weekday := rWkst r\<rparr>)"

definition stepDaily :: "RRule \<Rightarrow> rIterator \<Rightarrow> rIterator" where
  "stepDaily r it = it\<lparr>day := day it + rInterval r\<rparr>"

text \<open>The loops \<open>for { ... }\<close> of the three finest frequencies run until the BYHOUR, BYMINUTE
  and BYSECOND constraints hold; a loop that never ends has the value \<open>None\<close>. The second
  argument is the flag \<open>fixday\<close>.\<close>

partial_function (option) hourLoop ::
  "RRule \<Rightarrow> rIterator \<Rightarrow> bool \<Rightarrow> (rIterator \<times> bool) option" where
  "hourLoop r it fixday =
     (let it1 = it\<lparr>hour := hour it + rInterval r\<rparr>;
          dm = divmod (hour it1) 24;
          it2 = (if fst dm \<noteq> 0 then it1\<lparr>hour := snd dm, day := day it1 + fst dm\<rparr> else it1);
          fixday2 = (fst dm \<noteq> 0 \<or> fixday)
      in if rByhour r = [] \<or> contains (rByhour r) (hour it2)
         then Some (it2, fixday2)
         else hourLoop r it2 fixday2)"

declare hourLoop.simps [code]

partial_function (option) minuteLoop ::
  "RRule \<Rightarrow> rIterator \<Rightarrow> bool \<Rightarrow> (rIterator \<times> bool) option" where
  "minuteLoop r it fixday =
     (let it1 = it\<lparr>minute := minute it + rInterval r\<rparr>;
          dm = divmod (minute it1) 60;
          it2 = (if fst dm \<noteq> 0 then it1\<lparr>minute := snd dm, hour := hour it1 + fst dm\<rparr>
                 else it1);
          dh = divmod (hour it2) 24;
          it3 = (if fst dm \<noteq> 0 \<and> fst dh \<noteq> 0
                 then it2\<lparr>hour := snd dh, day := day it2 + fst dh\<rparr> else it2);
          fixday2 = (fst dm \<noteq> 0 \<and> fst dh \<noteq> 0 \<or> fixday)
      in if (rByhour r = [] \<or> contains (rByhour r) (hour it3))
            \<and> (rByminute r = [] \<or> contains (rByminute r) (minute it3))
         then Some (it3, fixday2)
         else minuteLoop r it3 fixday2)"

declare minuteLoop.simps [code]

partial_function (option) secondLoop ::
  "RRule \<Rightarrow> rIterator \<Rightarrow> bool \<Rightarrow> (rIterator \<times> bool) option" where
  "secondLoop r it fixday =
     (let it1 = it\<lparr>second := second it + rInterval r\<rparr>;
          ds = divmod (second it1) 60;
          it2 = (if fst ds \<noteq> 0 then it1\<lparr>second := snd ds, minute := minute it1 + fst ds\<rparr>
                 else it1);
          dm = divmod (minute it2) 60;
          it3 = (if fst ds \<noteq> 0 \<and> fst dm \<noteq> 0
                 then it2\<lparr>minute := snd dm, hour := hour it2 + fst dm\<rparr> else it2);
          dh = divmod (hour it3) 24;
          it4 = (if fst ds \<noteq> 0 \<and> fst dm \<noteq> 0 \<and> fst dh \<noteq> 0
                 then it3\<lparr>hour := snd dh, day := day it3 + fst dh\<rparr> else it3);
          fixday2 = (fst ds \<noteq> 0 \<and> fst dm \<noteq> 0 \<and> fst dh \<noteq> 0 \<or> fixday)
      in if (rByhour r = [] \<or> contains (rByhour r) (hour it4))
            \<and> (rByminute r = [] \<or> contains (rByminute r) (minute it4))
            \<and> (rBysecond r = [] \<or> contains (rBysecond r) (second it4))
         then Some (it4, fixday2)
         else secondLoop r it4 fixday2)"

declare secondLoop.simps [code]

text \<open>The jump "to one iteration before next day" when a day was filtered out.\<close>

definition jumpHour :: "RRule \<Rightarrow> rIterator \<Rightarrow> panic + rIterator" where
  "jumpHour r it =
     (case quo (23 - hour it) (rInterval r) of
        Inl e \<Rightarrow> Inl e
      | Inr q \<Rightarrow> Inr (it\<lparr>hour := hour it + q * rInterval r\<rparr>))"

definition jumpMinute :: "RRule \<Rightarrow> rIterator \<Rightarrow> panic + rIterator" where
  "jumpMinute r it =
     (case quo (1439 - (hour it * 60 + minute it)) (rInterval r) of
        Inl e \<Rightarrow> Inl e
      | Inr q \<Rightarrow> Inr (it\<lparr>minute := minute it + q * rInterval r\<rparr>))"

definition jumpSecond :: "RRule \<Rightarrow> rIterator \<Rightarrow> panic + rIterator" where
  "jumpSecond r it =
     (case quo (86399 - (hour it * 3600 + minute it * 60 + second it)) (rInterval r) of
        Inl e \<Rightarrow> Inl e
      | Inr q \<Rightarrow> Inr (it\<lparr>second := second it + q * rInterval r\<rparr>))"

text \<open>After the loop of a fine frequency: the new time set, then the day fix-up when the
  loop has set \<open>fixday\<close>.\<close>

definition afterLoop ::
  "RRule \<Rightarrow> (rIterator \<times> bool) option \<Rightarrow> (panic + bool \<times> RRule \<times> rIterator) option" where
  "afterLoop r res =
     (case res of
        None \<Rightarrow> None
      | Some (it, fixday) \<Rightarrow>
         let it1 = it\<lparr>timeset := gettimeset r (rFreq r) (hour it) (minute it) (second it)\<rparr>
         in Some (if fixday then fixDay r it1 else Inr (False, r, it1)))"

text \<open>"Handle frequency and Interval": the step of the cursor after a period.\<close>

definition advance ::
  "RRule \<Rightarrow> rIterator \<Rightarrow> bool \<Rightarrow> (panic + bool \<times> RRule \<times> rIterator) option" where
  "advance r it filtered =
     (case rFreq r of
        YEARLY \<Rightarrow> Some (stepYearly r it)
      | MONTHLY \<Rightarrow> Some (stepMonthly r it)
      | WEEKLY \<Rightarrow> Some (fixDay r (stepWeekly r it))
      | DAILY \<Rightarrow> Some (fixDay r (stepDaily r it))
      | HOURLY \<Rightarrow>
         (case (if filtered then jumpHour r it else Inr it) of
            Inl e \<Rightarrow> Some (Inl e)
          | Inr it1 \<Rightarrow> afterLoop r (hourLoop r it1 False))
      | MINUTELY \<Rightarrow>
         (case (if filtered then jumpMinute r it else Inr it) of
            Inl e \<Rightarrow> Some (Inl e)
          | Inr it1 \<Rightarrow> afterLoop r (minuteLoop r it1 False))
      | SECONDLY \<Rightarrow>
         (case (if filtered then jumpSecond r it else Inr it) of
            Inl e \<Rightarrow> Some (Inl e)
          | Inr it1 \<Rightarrow> afterLoop r (secondLoop r it1 False)))"

subsection \<open>generate, next and the derived operations\<close>

text \<open>The candidates of the current period after filtering, and the flag \<open>filtered\<close>.\<close>

definition period :: "RRule \<Rightarrow> rIterator \<Rightarrow> panic + Time list \<times> bool" where
  "period r it =
     (case getdayset r (ii it) (rFreq r) (year it) (month it) (day it) of
        Inl e \<Rightarrow> Inl e
      | Inr (ds, start, stop) \<Rightarrow>
         if \<not> (0 \<le> start \<and> start \<le> stop \<and> stop \<le> int (length ds))
         then Inl IndexOutOfRange
         else
           (case filterDays r (ii it) (nat (stop - start)) start (ds, False) of
              Inl e \<Rightarrow> Inl e
            | Inr (ds1, filtered) \<Rightarrow>
               if rBysetpos r \<noteq> [] \<and> timeset it \<noteq> []
               then (case setposList (ii it) (timeset it) (surviving ds1 start stop)
                            (rBysetpos r) [] of
                       Inl e \<Rightarrow> Inl e
                     | Inr poslist \<Rightarrow> Inr (sortTimes poslist, filtered))
               else Inr (candidates (ii it) (timeset it) (surviving ds1 start stop),
                         filtered)))"

text \<open>One pass of the loop of \<open>generate\<close>.\<close>

definition iteration ::
  "RRule \<Rightarrow> rIterator \<Rightarrow> (panic + bool \<times> RRule \<times> rIterator) option" where
  "iteration r it =
     (case period r it of
        Inl e \<Rightarrow> Some (Inl e)
      | Inr (cands, filtered) \<Rightarrow>
         (case emit cands r it of
            (returned, r1, it1) \<Rightarrow>
              if returned then Some (Inr (True, r1, it1)) else advance r1 it1 filtered))"

text \<open>\<open>generate\<close>: the loop runs while the buffer \<open>remain\<close> is empty. \<open>None\<close> is a run that
  never returns.\<close>

partial_function (option) generate ::
  "RRule \<Rightarrow> rIterator \<Rightarrow> (panic + RRule \<times> rIterator) option" where
  "generate r it =
     (if remain it \<noteq> [] then Some (Inr (r, it))
      else
        (case iteration r it of
           None \<Rightarrow> None
         | Some (Inl e) \<Rightarrow> Some (Inl e)
         | Some (Inr (returned, r1, it1)) \<Rightarrow>
            if returned then Some (Inr (r1, it1)) else generate r1 it1))"

declare generate.simps [code]

text \<open>\<open>next\<close> returns the next occurrence, or \<open>None\<close> for exhaustion, with the rule and the
  iterator after the call.\<close>

definition iterNext ::
  "RRule \<Rightarrow> rIterator \<Rightarrow> (panic + Time option \<times> RRule \<times> rIterator) option" where
  "iterNext r it =
     (case (if \<not> finished it then generate r it else Some (Inr (r, it))) of
        None \<Rightarrow> None
      | Some (Inl e) \<Rightarrow> Some (Inl e)
      | Some (Inr (r1, it1)) \<Rightarrow>
         (case remain it1 of
            [] \<Rightarrow> Some (Inr (None, r1, it1))
          | v # rest \<Rightarrow> Some (Inr (Some v, r1, it1\<lparr>remain := rest\<rparr>))))"

definition emptyInfo :: iterInfo where
  "emptyInfo =
     \<lparr>lastyear = 0, lastmonth = 0, yearlen = 0, nextyearlen = 0, firstyday = 0,
      yearweekday = 0, mmask = [], mrange = [], mdaymask = [], nmdaymask = [],
      wdaymask = [], wnomask = [], nwdaymask = [], eastermask = []\<rparr>"

definition Iterator :: "RRule \<Rightarrow> panic + rIterator" where
  "Iterator r =
     (let y = Year (DateStart r); m = Month (DateStart r); d = Day (DateStart r);
          h = Hour (DateStart r); mi = Minute (DateStart r); s = Second (DateStart r)
      in case rebuild r emptyInfo y m of
           Inl e \<Rightarrow> Inl e
         | Inr info \<Rightarrow>
            Inr \<lparr>year = y, month = m, day = d, hour = h, minute = mi, second = s,
                 weekday = toPyWeekday (Weekday (DateStart r)),
                 ii = info,
                 timeset =
                   (if freqOrd (rFreq r) < freqOrd HOURLY then Timeset r
                    else if freqOrd HOURLY \<le> freqOrd (rFreq r) \<and> rByhour r \<noteq> []
                              \<and> \<not> contains (rByhour r) h
                            \<or> freqOrd MINUTELY \<le> freqOrd (rFreq r) \<and> rByminute r \<noteq> []
                              \<and> \<not> contains (rByminute r) mi
                            \<or> freqOrd SECONDLY \<le> freqOrd (rFreq r) \<and> rBysecond r \<noteq> []
                              \<and> \<not> contains (rBysecond r) s
                    then []
                    else gettimeset r (rFreq r) h mi s),
                 total = 0, count = rCount r, remain = [], finished = False\<rparr>)"

text \<open>Modelled from the spec: \<open>all\<close>, which drains the iterator: it calls \<open>next\<close> until
  exhaustion and collects the occurrences.\<close>

partial_function (option) drain ::
  "RRule \<Rightarrow> rIterator \<Rightarrow> Time list \<Rightarrow> (panic + Time list \<times> RRule) option" where
  "drain r it acc =
     (case iterNext r it of
        None \<Rightarrow> None
      | Some (Inl e) \<Rightarrow> Some (Inl e)
      | Some (Inr (v, r1, it1)) \<Rightarrow>
         (case v of
            None \<Rightarrow> Some (Inr (acc, r1))
          | Some t \<Rightarrow> drain r1 it1 (acc @ [t])))"

declare drain.simps [code]

text \<open>\<open>All\<close> returns the occurrences together with the rule after the iteration.\<close>

definition All :: "RRule \<Rightarrow> (panic + Time list \<times> RRule) option" where
  "All r = (case Iterator r of Inl e \<Rightarrow> Some (Inl e) | Inr it \<Rightarrow> drain r it [])"

section \<open>Definitions used by the statements\<close>

text \<open>The documented bounds of the numeric BY-lists, as the specification lists them:
  seconds and minutes 0..59, hours 0..23, month days 1..31 of either sign, year days 1..366
  of either sign, week numbers 1..53 of either sign, months 1..12, set positions 1..366 of
  either sign. \<open>outOfBounds\<close> holds when some value lies outside its bounds.\<close>

definition outOfBounds :: "ROption \<Rightarrow> bool" where
  "outOfBounds arg \<longleftrightarrow>
     (\<exists>v\<in>set (Bysecond arg). \<not> (0 \<le> v \<and> v \<le> 59))
   \<or> (\<exists>v\<in>set (Byminute arg). \<not> (0 \<le> v \<and> v \<le> 59))
   \<or> (\<exists>v\<in>set (Byhour arg). \<not> (0 \<le> v \<and> v \<le> 23))
   \<or> (\<exists>v\<in>set (Bymonthday arg). \<not> (1 \<le> \<bar>v\<bar> \<and> \<bar>v\<bar> \<le> 31))
   \<or> (\<exists>v\<in>set (Byyearday arg). \<not> (1 \<le> \<bar>v\<bar> \<and> \<bar>v\<bar> \<le> 366))
   \<or> (\<exists>v\<in>set (Byweekno arg). \<not> (1 \<le> \<bar>v\<bar> \<and> \<bar>v\<bar> \<le> 53))
   \<or> (\<exists>v\<in>set (Bymonth arg). \<not> (1 \<le> v \<and> v \<le> 12))
   \<or> (\<exists>v\<in>set (Bysetpos arg). \<not> (1 \<le> \<bar>v\<bar> \<and> \<bar>v\<bar> \<le> 366))"

text \<open>Options with every list empty, from which the concrete rules below are made: a daily
  rule from 2018-01-01T00:00:00Z with week start Monday.\<close>

definition optsBase :: ROption where
  "optsBase = \<lparr>Freq = DAILY, Dtstart = Date 2018 1 1 0 0 0 0, Interval = 0,
     Wkst = \<lparr>wd_weekday = 0, wd_n = 0\<rparr>, Count = 0, Until = 0, Bysetpos = [],
     Bymonth = [], Bymonthday = [], Byyearday = [], Byweekno = [], Byweekday = [],
     Byhour = [], Byminute = [], Bysecond = [], Byeaster = [], RFC = False\<rparr>"

text \<open>None of BYWEEKNO, BYYEARDAY, BYMONTHDAY, BYDAY, BYEASTER is given.\<close>

definition noneGiven :: "ROption \<Rightarrow> bool" where
  "noneGiven arg \<longleftrightarrow>
     Byweekno arg = [] \<and> Byyearday arg = [] \<and> Bymonthday arg = []
     \<and> Byweekday arg = [] \<and> Byeaster arg = []"

text \<open>The outcome of the first \<open>k\<close> calls of \<open>next\<close> on an iterator: the occurrences that the
  calls return, in order, with the rule and the iterator after the last call. A call that
  reports exhaustion contributes no occurrence.\<close>

fun nextN ::
  "nat \<Rightarrow> RRule \<Rightarrow> rIterator \<Rightarrow> (panic + Time list \<times> RRule \<times> rIterator) option" where
  "nextN 0 r it = Some (Inr ([], r, it))"
| "nextN (Suc k) r it =
     (case iterNext r it of
        None \<Rightarrow> None
      | Some (Inl e) \<Rightarrow> Some (Inl e)
      | Some (Inr (v, r1, it1)) \<Rightarrow>
         (case nextN k r1 it1 of
            None \<Rightarrow> None
          | Some (Inl e) \<Rightarrow> Some (Inl e)
          | Some (Inr (ts, r2, it2)) \<Rightarrow>
             Some (Inr ((case v of None \<Rightarrow> [] | Some t \<Rightarrow> [t]) @ ts, r2, it2))))"

section \<open>Facts about the calendar and the construction\<close>

lemma absDate_yday_bounds: "0 \<le> snd (absDate t) \<and> snd (absDate t) \<le> 365"
proof -
  define d3 where "d3 = (let d = t div nsPerDay; d1 = d mod 146097; c = d1 div 36524;
      n100 = c - c div 4; d2 = d1 - 36524 * n100 in d2 mod 1461)"
  have b: "0 \<le> d3" "d3 < 1461" unfolding d3_def Let_def by simp_all
  have y: "snd (absDate t) = d3 - 365 * (d3 div 365 - d3 div 365 div 4)"
    unfolding absDate_def d3_def Let_def snd_conv by (rule refl)
  show ?thesis
  proof (cases "d3 < 1460")
    case True
    then have "d3 div 365 < 4" by simp
    moreover have "0 \<le> d3 div 365" using b by simp
    ultimately have "d3 div 365 div 4 = 0" by simp
    then have "snd (absDate t) = d3 mod 365"
      unfolding y by (simp add: minus_mult_div_eq_mod)
    then show ?thesis by simp
  next
    case False
    then have "d3 = 1460" using b by simp
    then show ?thesis unfolding y by simp
  qed
qed

lemma daysBefore_le: "list_all (\<lambda>m. daysBefore ! m \<le> 31 * int m) [0..<12]"
  by code_simp

lemma monthDayCommon_day_pos:
  assumes d: "0 \<le> d" "d \<le> 365"
  shows "1 \<le> snd (monthDayCommon d)"
proof -
  define m where "m = nat (d div 31)"
  have m: "int m = d div 31" using d by (simp add: m_def)
  have "d div 31 \<le> 11" using d by simp
  then have "m < 12" using m by linarith
  then have "m \<in> set [0..<12]" by (simp only: set_upt) simp
  with daysBefore_le have "daysBefore ! m \<le> 31 * int m"
    unfolding list_all_iff by blast
  also have "\<dots> \<le> d" unfolding m by simp
  finally have le: "daysBefore ! nat (d div 31) \<le> d" unfolding m_def .
  then show ?thesis by (simp add: monthDayCommon_def Let_def)
qed

lemma monthDay_day_pos:
  assumes "0 \<le> yd" "yd \<le> 365"
  shows "1 \<le> snd (monthDay y yd)"
  using assms by (simp add: monthDay_def monthDayCommon_day_pos)

lemma Day_pos: "1 \<le> Day t"
  unfolding Day_def using absDate_yday_bounds[of t] by (simp add: monthDay_day_pos)


lemma normalize_fields:
  "Freq (normalize now arg) = Freq arg"
  "Dtstart (normalize now arg) = startOf now arg"
  "Until (normalize now arg) =
     (if IsZero (Until arg) then Add (startOf now arg) maxDuration else Until arg)"
  "Bymonth (normalize now arg) =
     (if noneGiven arg \<and> Freq arg = YEARLY \<and> Bymonth arg = []
      then [Month (startOf now arg)] else Bymonth arg)"
  "Bymonthday (normalize now arg) =
     (if noneGiven arg \<and> (Freq arg = YEARLY \<or> Freq arg = MONTHLY)
      then [Day (startOf now arg)] else Bymonthday arg)"
  "Byweekday (normalize now arg) =
     (if noneGiven arg \<and> Freq arg = WEEKLY
      then [\<lparr>wd_weekday = toPyWeekday (Weekday (startOf now arg)), wd_n = 0\<rparr>]
      else Byweekday arg)"
  "Byyearday (normalize now arg) = Byyearday arg"
  "Byweekno (normalize now arg) = Byweekno arg"
  "Byeaster (normalize now arg) = Byeaster arg"
  "Byhour (normalize now arg) = Byhour arg"
  "Byminute (normalize now arg) = Byminute arg"
  "Bysecond (normalize now arg) = Bysecond arg"
  "Bysetpos (normalize now arg) = Bysetpos arg"
  by (simp_all add: normalize_def defaultsFromStart_def noneGiven_def)

lemma buildRule_fields:
  "rFreq (buildRule now arg) = Freq arg"
  "DateStart (buildRule now arg) = startOf now arg"
  "rInterval (buildRule now arg) = (if Interval arg = 0 then 1 else Interval arg)"
  "rWkst (buildRule now arg) = wd_weekday (Wkst arg)"
  "rCount (buildRule now arg) = Count arg"
  "UntilTime (buildRule now arg) = Until (normalize now arg)"
  "rBysetpos (buildRule now arg) = Bysetpos arg"
  "rBymonth (buildRule now arg) = Bymonth (normalize now arg)"
  "rBymonthday (buildRule now arg) = filter (\<lambda>mday. 0 < mday) (Bymonthday (normalize now arg))"
  "Bynmonthday (buildRule now arg) = filter (\<lambda>mday. mday < 0) (Bymonthday (normalize now arg))"
  "rByyearday (buildRule now arg) = Byyearday arg"
  "rByweekno (buildRule now arg) = Byweekno arg"
  "rByweekday (buildRule now arg) = map wd_weekday
     (filter (\<lambda>w. wd_n w = 0 \<or> freqOrd MONTHLY < freqOrd (Freq arg))
        (Byweekday (normalize now arg)))"
  "Bynweekday (buildRule now arg) =
     filter (\<lambda>w. \<not> (wd_n w = 0 \<or> freqOrd MONTHLY < freqOrd (Freq arg)))
        (Byweekday (normalize now arg))"
  "rByeaster (buildRule now arg) = Byeaster arg"
  "Len (buildRule now arg) = 0"
  "rByhour (buildRule now arg) =
     (if Byhour arg = []
      then (if freqOrd (Freq arg) < freqOrd HOURLY then [Hour (startOf now arg)] else [])
      else Byhour arg)"
  "rByminute (buildRule now arg) =
     (if Byminute arg = []
      then (if freqOrd (Freq arg) < freqOrd MINUTELY then [Minute (startOf now arg)] else [])
      else Byminute arg)"
  "rBysecond (buildRule now arg) =
     (if Bysecond arg = []
      then (if freqOrd (Freq arg) < freqOrd SECONDLY then [Second (startOf now arg)] else [])
      else Bysecond arg)"
  "Timeset (buildRule now arg) =
     (if freqOrd (Freq arg) < freqOrd HOURLY
      then sortTimes (timesOf
        (if Byhour arg = []
         then (if freqOrd (Freq arg) < freqOrd HOURLY then [Hour (startOf now arg)] else [])
         else Byhour arg)
        (if Byminute arg = []
         then (if freqOrd (Freq arg) < freqOrd MINUTELY then [Minute (startOf now arg)] else [])
         else Byminute arg)
        (if Bysecond arg = []
         then (if freqOrd (Freq arg) < freqOrd SECONDLY then [Second (startOf now arg)] else [])
         else Bysecond arg))
      else [])"
  unfolding buildRule_def Let_def calculateTimeset_def
  by (simp_all add: normalize_fields)

lemma NewRRule_Inr: "NewRRule now arg = Inr r \<Longrightarrow> r = buildRule now arg"
  by (simp add: NewRRule_def split: option.splits)

lemma freqOrd_coarse: "freqOrd MONTHLY < freqOrd f \<longleftrightarrow> \<not> (f = MONTHLY \<or> f = YEARLY)"
  by (cases f) simp_all

section \<open>Validation of the options\<close>

lemma checkField_None:
  "checkField param lo hi pm vs = None \<longleftrightarrow>
     (\<forall>v\<in>set vs. (lo \<le> v \<and> v \<le> hi) \<or> (pm \<and> v \<le> - lo \<and> - hi \<le> v))"
  by (induction vs) (auto simp: checkBounds_def)

lemma checkWeekdays_None:
  "checkWeekdays ws = None \<longleftrightarrow> (\<forall>w\<in>set ws. - 53 \<le> wd_n w \<and> wd_n w \<le> 53)"
  by (induction ws) auto

lemma checkField_cases:
  "(case checkField param lo hi pm vs of Some e \<Rightarrow> Some e | None \<Rightarrow> k) = None \<longleftrightarrow>
     checkField param lo hi pm vs = None \<and> k = None"
  by (cases "checkField param lo hi pm vs") auto

lemma checkField_plain:
  "checkField param lo hi False vs = None \<longleftrightarrow> \<not> (\<exists>v\<in>set vs. \<not> (lo \<le> v \<and> v \<le> hi))"
  by (simp add: checkField_None)

lemma checkField_pm:
  assumes "0 < lo" "lo \<le> hi"
  shows "checkField param lo hi True vs = None
     \<longleftrightarrow> \<not> (\<exists>v\<in>set vs. \<not> (lo \<le> \<bar>v\<bar> \<and> \<bar>v\<bar> \<le> hi))"
proof -
  have "\<And>v::int. ((lo \<le> v \<and> v \<le> hi) \<or> (True \<and> v \<le> - lo \<and> - hi \<le> v))
      = (lo \<le> \<bar>v\<bar> \<and> \<bar>v\<bar> \<le> hi)"
    using assms by (simp add: abs_if) linarith
  then show ?thesis by (simp only: checkField_None) simp
qed

lemma checkWeekdays_abs:
  "checkWeekdays ws = None \<longleftrightarrow> \<not> (\<exists>w\<in>set ws. 53 < \<bar>wd_n w\<bar>)"
proof -
  have eq: "\<And>w. (- 53 \<le> wd_n w \<and> wd_n w \<le> 53) = (\<not> 53 < \<bar>wd_n w\<bar>)"
    by (simp add: abs_if) linarith
  show ?thesis unfolding checkWeekdays_None eq by simp
qed

lemma validateBounds_None:
  "validateBounds arg = None \<longleftrightarrow>
     \<not> outOfBounds arg \<and> \<not> (\<exists>w\<in>set (Byweekday arg). 53 < \<bar>wd_n w\<bar>) \<and> \<not> Interval arg < 0"
proof -
  have "validateBounds arg = None \<longleftrightarrow>
      checkField ''Bysecond'' 0 59 False (Bysecond arg) = None
    \<and> checkField ''Byminute'' 0 59 False (Byminute arg) = None
    \<and> checkField ''Byhour'' 0 23 False (Byhour arg) = None
    \<and> checkField ''Bymonthday'' 1 31 True (Bymonthday arg) = None
    \<and> checkField ''Byyearday'' 1 366 True (Byyearday arg) = None
    \<and> checkField ''Byweekno'' 1 53 True (Byweekno arg) = None
    \<and> checkField ''Bymonth'' 1 12 False (Bymonth arg) = None
    \<and> checkField ''Bysetpos'' 1 366 True (Bysetpos arg) = None
    \<and> checkWeekdays (Byweekday arg) = None \<and> \<not> Interval arg < 0"
    unfolding validateBounds_def
    by (simp split: option.split)
  also have "\<dots> \<longleftrightarrow> \<not> outOfBounds arg
      \<and> \<not> (\<exists>w\<in>set (Byweekday arg). 53 < \<bar>wd_n w\<bar>) \<and> \<not> Interval arg < 0"
    unfolding outOfBounds_def
    by (simp only: checkField_plain checkField_pm checkWeekdays_abs de_Morgan_disj conj_assoc)
  finally show ?thesis .
qed

text \<open>
  Claim C7. \<open>NewRRule\<close> returns an error if and only if some numeric BY-value of the
  options lies outside its documented bounds, or some weekday ordinal \<open>N\<close> of BYDAY has
  \<open>|N| > 53\<close>, or the interval is negative. An interval of 0 is accepted and the rule gets
  the interval 1.
\<close>

theorem NewRRule_error_iff:
  "((\<exists>e. NewRRule now arg = Inl e) \<longleftrightarrow>
      outOfBounds arg \<or> (\<exists>w\<in>set (Byweekday arg). 53 < \<bar>wd_n w\<bar>) \<or> Interval arg < 0)
   \<and> (Interval arg = 0 \<and> \<not> outOfBounds arg \<and> \<not> (\<exists>w\<in>set (Byweekday arg). 53 < \<bar>wd_n w\<bar>)
        \<longrightarrow> (\<exists>r. NewRRule now arg = Inr r \<and> rInterval r = 1))"
proof (cases "validateBounds arg")
  case None
  then obtain r where r: "NewRRule now arg = Inr r"
    and i: "rInterval r = (if Interval arg = 0 then 1 else Interval arg)"
    by (simp add: NewRRule_def buildRule_def Let_def calculateTimeset_def)
  from None[unfolded validateBounds_None]
  have ok: "\<not> outOfBounds arg" "\<not> (\<exists>w\<in>set (Byweekday arg). 53 < \<bar>wd_n w\<bar>)"
    "\<not> Interval arg < 0"
    by blast+
  from r have "\<not> (\<exists>e. NewRRule now arg = Inl e)" by simp
  with ok r i show ?thesis by simp
next
  case (Some e)
  then have l: "NewRRule now arg = Inl e" by (simp add: NewRRule_def)
  from Some have "validateBounds arg \<noteq> None" by simp
  then have bad: "outOfBounds arg \<or> (\<exists>w\<in>set (Byweekday arg). 53 < \<bar>wd_n w\<bar>) \<or> Interval arg < 0"
    by (simp only: validateBounds_None) blast
  have "\<exists>e. NewRRule now arg = Inl e" using l by blast
  moreover have "Interval arg = 0 \<Longrightarrow> outOfBounds arg \<or> (\<exists>w\<in>set (Byweekday arg). 53 < \<bar>wd_n w\<bar>)"
    using bad by auto
  ultimately show ?thesis using bad by blast
qed

theorem NewRRule_error_iff_witness:
  "(\<exists>e. NewRRule 0 (optsBase\<lparr>Bymonth := [13]\<rparr>) = Inl e)
   \<and> (\<exists>r. NewRRule 0 optsBase = Inr r \<and> rInterval r = 1)"
  using NewRRule_error_iff[of 0 "optsBase\<lparr>Bymonth := [13]\<rparr>"] NewRRule_error_iff[of 0 optsBase]
  by (simp add: outOfBounds_def optsBase_def)


section \<open>Defaults inserted by the construction\<close>

text \<open>
  Claim C8. During construction, if none of BYWEEKNO, BYYEARDAY, BYMONTHDAY, BYDAY, BYEASTER
  is given, \<open>NewRRule\<close> inserts defaults from the start: for YEARLY the month of the start
  into BYMONTH when that is unset and the day of the start into BYMONTHDAY; for MONTHLY the
  day of the start into BYMONTHDAY; for WEEKLY the weekday of the start into BYDAY. Every
  BYDAY entry with \<open>N \<noteq> 0\<close> is kept as a positioned weekday only when the frequency is
  MONTHLY or YEARLY; otherwise it goes to the unpositioned weekday list.
\<close>

theorem NewRRule_defaults:
  assumes "NewRRule now arg = Inr r"
  shows "(noneGiven arg \<longrightarrow>
            (Freq arg = YEARLY \<longrightarrow>
               rBymonth r = (if Bymonth arg = [] then [Month (DateStart r)] else Bymonth arg)
               \<and> rBymonthday r = [Day (DateStart r)] \<and> Bynmonthday r = [])
          \<and> (Freq arg = MONTHLY \<longrightarrow>
               rBymonth r = Bymonth arg
               \<and> rBymonthday r = [Day (DateStart r)] \<and> Bynmonthday r = [])
          \<and> (Freq arg = WEEKLY \<longrightarrow>
               rByweekday r = [toPyWeekday (Weekday (DateStart r))] \<and> Bynweekday r = []))
       \<and> Bynweekday r =
            (if Freq arg = MONTHLY \<or> Freq arg = YEARLY
             then filter (\<lambda>w. wd_n w \<noteq> 0) (Byweekday arg) else [])
       \<and> (Byweekday arg \<noteq> [] \<longrightarrow>
            rByweekday r = map wd_weekday
              (if Freq arg = MONTHLY \<or> Freq arg = YEARLY
               then filter (\<lambda>w. wd_n w = 0) (Byweekday arg) else Byweekday arg))"
proof -
  have r: "r = buildRule now arg" using assms by (rule NewRRule_Inr)
  have pos: "0 < Day (startOf now arg)" "\<not> Day (startOf now arg) < 0"
    using Day_pos[of "startOf now arg"] by simp_all
  have ng: "Byweekday arg \<noteq> [] \<Longrightarrow> \<not> noneGiven arg" by (simp add: noneGiven_def)
  have ng': "noneGiven arg \<Longrightarrow> Byweekday arg = []" by (simp add: noneGiven_def)
  show ?thesis
    unfolding r buildRule_fields normalize_fields freqOrd_coarse
    using pos ng ng' by (cases "Freq arg") simp_all
qed

theorem NewRRule_defaults_witness:
  "(\<exists>r. NewRRule 0 (optsBase\<lparr>Freq := YEARLY, Byweekday := []\<rparr>) = Inr r
        \<and> rBymonth r = [1] \<and> rBymonthday r = [1] \<and> Bynmonthday r = [])
   \<and> (\<exists>r. NewRRule 0 (optsBase\<lparr>Freq := WEEKLY, Byweekday := []\<rparr>) = Inr r
        \<and> rByweekday r = [0] \<and> Bynweekday r = [])
   \<and> (\<exists>r. NewRRule 0 (optsBase\<lparr>Freq := MONTHLY,
             Byweekday := [\<lparr>wd_weekday = 0, wd_n = 2\<rparr>, \<lparr>wd_weekday = 1, wd_n = 0\<rparr>]\<rparr>) = Inr r
        \<and> rByweekday r = [1] \<and> Bynweekday r = [\<lparr>wd_weekday = 0, wd_n = 2\<rparr>])"
proof -
  have s: "Month (Date 2018 1 1 0 0 0 0) = 1" "Day (Date 2018 1 1 0 0 0 0) = 1"
    "toPyWeekday (Weekday (Date 2018 1 1 0 0 0 0)) = 0"
    "TruncateSecond (Date 2018 1 1 0 0 0 0) = Date 2018 1 1 0 0 0 0"
    "IsZero (Date 2018 1 1 0 0 0 0) = False"
    by code_simp+
  have n: "\<And>f ws. checkWeekdays ws = None \<Longrightarrow>
      NewRRule 0 (optsBase\<lparr>Freq := f, Byweekday := ws\<rparr>)
        = Inr (buildRule 0 (optsBase\<lparr>Freq := f, Byweekday := ws\<rparr>))"
    by (simp add: NewRRule_def validateBounds_def optsBase_def)
  have d: "\<And>f ws. DateStart (buildRule 0 (optsBase\<lparr>Freq := f, Byweekday := ws\<rparr>))
       = Date 2018 1 1 0 0 0 0"
    by (simp add: buildRule_fields startOf_def optsBase_def s)
  let ?a = "optsBase\<lparr>Freq := YEARLY, Byweekday := []\<rparr>"
  let ?b = "optsBase\<lparr>Freq := WEEKLY, Byweekday := []\<rparr>"
  let ?c = "optsBase\<lparr>Freq := MONTHLY,
             Byweekday := [\<lparr>wd_weekday = 0, wd_n = 2\<rparr>, \<lparr>wd_weekday = 1, wd_n = 0\<rparr>]\<rparr>"
  have 1: "NewRRule 0 ?a = Inr (buildRule 0 ?a)" by (rule n) simp
  have 2: "NewRRule 0 ?b = Inr (buildRule 0 ?b)" by (rule n) simp
  have 3: "NewRRule 0 ?c = Inr (buildRule 0 ?c)" by (rule n) simp
  have fa: "noneGiven ?a" "Freq ?a = YEARLY" "Bymonth ?a = []" "Byweekday ?a = []"
    by (simp_all add: noneGiven_def optsBase_def)
  have fb: "noneGiven ?b" "Freq ?b = WEEKLY" "Byweekday ?b = []"
    by (simp_all add: noneGiven_def optsBase_def)
  have fc: "Freq ?c = MONTHLY"
    "Byweekday ?c = [\<lparr>wd_weekday = 0, wd_n = 2\<rparr>, \<lparr>wd_weekday = 1, wd_n = 0\<rparr>]"
    by (simp_all add: optsBase_def)
  have "rBymonth (buildRule 0 ?a) = [1] \<and> rBymonthday (buildRule 0 ?a) = [1]
      \<and> Bynmonthday (buildRule 0 ?a) = []"
    using NewRRule_defaults[OF 1] fa by (simp add: d s)
  moreover have "rByweekday (buildRule 0 ?b) = [0] \<and> Bynweekday (buildRule 0 ?b) = []"
    using NewRRule_defaults[OF 2] fb by (simp add: d s)
  moreover have "rByweekday (buildRule 0 ?c) = [1]
      \<and> Bynweekday (buildRule 0 ?c) = [\<lparr>wd_weekday = 0, wd_n = 2\<rparr>]"
    using NewRRule_defaults[OF 3] fc by simp
  ultimately show ?thesis using 1 2 3 by blast
qed

end
